theory Spec2Isabelle
  imports Complex_Main
begin

section \<open>Environment Canada radar images: a model of \<^verbatim>\<open>env_canada/ec_radar.py\<close>\<close>

text \<open>
  The module fetches radar rasters from a WMS service, composes each with a basemap, a
  legend and a time label, and assembles an animation. Everything the module does itself
  (the frame schedule, the order in which results are paired with their timestamps, the
  padding of the animation, the handling of the capability document, the writes to the
  module-level dictionaries and to the session object) is modelled as written. What the
  module obtains from libraries (HTTP transport, XML text parsing, ISO-8601 parsing, image
  decoding and encoding, floating-point arithmetic) enters through the record \<open>env\<close>:
  every theorem below holds for every such environment.
\<close>

subsection \<open>Values\<close>

text \<open>
  A \<^verbatim>\<open>datetime\<close> is a point on the time line, counted in microseconds (the resolution of
  \<^verbatim>\<open>datetime\<close>); a \<^verbatim>\<open>timedelta\<close> is a difference of two such points. The finite range of
  \<^verbatim>\<open>datetime\<close> (years 1 to 9999) is not part of the model, and the two ends of an interval
  are of one kind (both with a UTC offset, as the service publishes them), so that they can
  be compared. A byte string is a \<open>string\<close>: a \<open>char\<close> is a byte.
\<close>

type_synonym datetime = int
type_synonym bytes = string

definition timedelta_minutes :: "int \<Rightarrow> int" where
  "timedelta_minutes m = m * 60000000"

text \<open>The exceptions, by class, each with its message.\<close>

datatype error =
    TypeError string
  | KeyError string
  | AttributeError string
  | ValueError string
  | IndexError string
  | ZeroDivisionError string
  | RequestException string
  | ClientError string
  | ImageError string
  | ParseError string
  | OSError string
  | InvalidStateError string

text \<open>The values stored in the parameter dictionaries.\<close>

datatype pyval = PyStr string | PyInt int

type_synonym params = "string \<rightharpoonup> pyval"

record http_response =
  status_code :: nat
  content :: bytes

record image =
  img_width :: int
  img_height :: int
  img_data :: bytes

subsection \<open>Floating point\<close>

text \<open>
  A Python \<^verbatim>\<open>float\<close> is a finite number, an infinity or NaN. Which finite number an
  arithmetic operation or a \<^verbatim>\<open>math\<close> function returns is the platform's business (the
  record \<open>fpu\<close>); when they raise is Python's, and is modelled here.
\<close>

datatype pyfloat = Finite real | PosInf | NegInf | NaN

record fpu =
  fp_radians :: "pyfloat \<Rightarrow> pyfloat"
  fp_degrees :: "pyfloat \<Rightarrow> pyfloat"
  fp_add :: "pyfloat \<Rightarrow> pyfloat \<Rightarrow> pyfloat"
  fp_sub :: "pyfloat \<Rightarrow> pyfloat \<Rightarrow> pyfloat"
  fp_div :: "pyfloat \<Rightarrow> pyfloat \<Rightarrow> pyfloat"
  fp_sin :: "pyfloat \<Rightarrow> pyfloat"
  fp_cos :: "pyfloat \<Rightarrow> pyfloat"
  fp_asin :: "pyfloat \<Rightarrow> pyfloat"
  fp_round :: "pyfloat \<Rightarrow> int \<Rightarrow> pyfloat"

definition math_domain_error :: error where
  "math_domain_error = ValueError ''math domain error''"

definition py_truediv :: "fpu \<Rightarrow> pyfloat \<Rightarrow> pyfloat \<Rightarrow> error + pyfloat" where
  "py_truediv F x y =
     (if y = Finite 0 then Inl (ZeroDivisionError ''float division by zero'')
      else Inr (fp_div F x y))"

definition math_sin :: "fpu \<Rightarrow> pyfloat \<Rightarrow> error + pyfloat" where
  "math_sin F x = (if x = PosInf \<or> x = NegInf then Inl math_domain_error else Inr (fp_sin F x))"

definition math_cos :: "fpu \<Rightarrow> pyfloat \<Rightarrow> error + pyfloat" where
  "math_cos F x = (if x = PosInf \<or> x = NegInf then Inl math_domain_error else Inr (fp_cos F x))"

definition math_asin :: "fpu \<Rightarrow> pyfloat \<Rightarrow> error + pyfloat" where
  "math_asin F x =
     (case x of
        Finite r \<Rightarrow> if - 1 \<le> r \<and> r \<le> 1 then Inr (fp_asin F x) else Inl math_domain_error
      | NaN \<Rightarrow> Inr NaN
      | PosInf \<Rightarrow> Inl math_domain_error
      | NegInf \<Rightarrow> Inl math_domain_error)"

subsection \<open>\<^verbatim>\<open>get_bounding_box\<close>\<close>

text \<open>The quotient handed to \<^verbatim>\<open>math.asin\<close> on line 80, when it can be computed.\<close>

definition asin_argument :: "fpu \<Rightarrow> pyfloat \<Rightarrow> pyfloat \<Rightarrow> error + pyfloat" where
  "asin_argument F angular_distance latittude =
     (case math_sin F angular_distance of
        Inl e \<Rightarrow> Inl e
      | Inr s \<Rightarrow>
          (case math_cos F latittude of
             Inl e \<Rightarrow> Inl e
           | Inr c \<Rightarrow> py_truediv F s c))"

definition get_bounding_box ::
  "fpu \<Rightarrow> pyfloat \<Rightarrow> pyfloat \<Rightarrow> pyfloat \<Rightarrow> error + (pyfloat \<times> pyfloat \<times> pyfloat \<times> pyfloat)" where
  "get_bounding_box F distance latittude0 longitude0 =
     (let latittude = fp_radians F latittude0;
          longitude = fp_radians F longitude0;
          distance_from_point_km = distance
      in case py_truediv F distance_from_point_km (Finite 6371.01) of
           Inl e \<Rightarrow> Inl e
         | Inr angular_distance \<Rightarrow>
             (let lat_min = fp_sub F latittude angular_distance;
                  lat_max = fp_add F latittude angular_distance
              in case asin_argument F angular_distance latittude of
                   Inl e \<Rightarrow> Inl e
                 | Inr q \<Rightarrow>
                     (case math_asin F q of
                        Inl e \<Rightarrow> Inl e
                      | Inr delta_longitude \<Rightarrow>
                          (let lon_min = fp_sub F longitude delta_longitude;
                               lon_max = fp_add F longitude delta_longitude;
                               lon_min = fp_round F (fp_degrees F lon_min) 5;
                               lat_max = fp_round F (fp_degrees F lat_max) 5;
                               lon_max = fp_round F (fp_degrees F lon_max) 5;
                               lat_min = fp_round F (fp_degrees F lat_min) 5
                           in Inr (lat_min, lon_min, lat_max, lon_max)))))"

subsection \<open>Strings\<close>

definition lower_char :: "char \<Rightarrow> char" where
  "lower_char c =
     (let n = (of_char c :: nat) in if 65 \<le> n \<and> n \<le> 90 then char_of (n + 32) else c)"

definition upper_char :: "char \<Rightarrow> char" where
  "upper_char c =
     (let n = (of_char c :: nat) in if 97 \<le> n \<and> n \<le> 122 then char_of (n - 32) else c)"

definition str_lower :: "string \<Rightarrow> string" where
  "str_lower s = map lower_char s"

definition str_upper :: "string \<Rightarrow> string" where
  "str_upper s = map upper_char s"

text \<open>\<^verbatim>\<open>s.split(sep)\<close> for a separator of one character: never an empty list.\<close>

fun split_from :: "char \<Rightarrow> string \<Rightarrow> string \<Rightarrow> string list" where
  "split_from sep field [] = [field]"
| "split_from sep field (c # cs) =
     (if c = sep then field # split_from sep [] cs else split_from sep (field @ [c]) cs)"

definition str_split :: "char \<Rightarrow> string \<Rightarrow> string list" where
  "str_split sep s = split_from sep [] s"

fun str_join :: "string \<Rightarrow> string list \<Rightarrow> string" where
  "str_join sep [] = []"
| "str_join sep [x] = x"
| "str_join sep (x # y # ys) = x @ sep @ str_join sep (y # ys)"

subsection \<open>Element trees and the dimension path\<close>

datatype element =
  Element (elem_tag: string) (elem_text: "string option") (elem_tail: "string option")
    (elem_children: "element list")

definition opt_str :: "string option \<Rightarrow> string" where
  "opt_str t = (case t of None \<Rightarrow> [] | Some s \<Rightarrow> s)"

text \<open>\<^verbatim>\<open>"".join(e.itertext())\<close>: the text of an element and of everything below it.\<close>

fun text_content :: "element \<Rightarrow> string" where
  "text_content (Element t txt tail cs) =
     opt_str txt @ concat (map (\<lambda>c. text_content c @ opt_str (elem_tail c)) cs)"

text \<open>\<^verbatim>\<open>e.iter(tag)\<close>: the element and its descendants with that tag, in document order.\<close>

fun iter_tag :: "string \<Rightarrow> element \<Rightarrow> element list" where
  "iter_tag t (Element t' txt tail cs) =
     (if t' = t then [Element t' txt tail cs] else []) @ concat (map (iter_tag t) cs)"

definition wms :: "string \<Rightarrow> string" where
  "wms name = ''{http://www.opengis.net/wms}'' @ name"

text \<open>
  The matches of \<^verbatim>\<open>.//wms:Layer[wms:Name="<layer>"]/wms:Dimension\<close>: every \<^verbatim>\<open>Layer\<close> below
  the root with a child \<^verbatim>\<open>Name\<close> whose text content is the layer's name contributes its
  \<^verbatim>\<open>Dimension\<close> children. (The layer's name stands between quotation marks in the path:
  it has none of its own, as the two names in \<open>layer\<close> below.)
\<close>

definition named_layers :: "element \<Rightarrow> string \<Rightarrow> element list" where
  "named_layers tree name =
     filter (\<lambda>l. \<exists>n \<in> set (elem_children l). elem_tag n = wms ''Name'' \<and> text_content n = name)
       (concat (map (iter_tag (wms ''Layer'')) (elem_children tree)))"

definition dimension_elements :: "element \<Rightarrow> string \<Rightarrow> element list" where
  "dimension_elements tree name =
     concat (map (\<lambda>l. filter (\<lambda>d. elem_tag d = wms ''Dimension'') (elem_children l))
       (named_layers tree name))"

definition find_dimension :: "element \<Rightarrow> string \<Rightarrow> element option" where
  "find_dimension tree name =
     (case dimension_elements tree name of [] \<Rightarrow> None | d # _ \<Rightarrow> Some d)"

subsection \<open>The module's dictionaries\<close>

definition basemap_url :: string where
  "basemap_url = ''http://maps.geogratis.gc.ca/wms/CBMT''"

definition geomet_url :: string where
  "geomet_url = ''https://geo.weather.gc.ca/geomet''"

definition layer :: "string \<rightharpoonup> string" where
  "layer = [''rain'' \<mapsto> ''RADAR_1KM_RRAI'', ''snow'' \<mapsto> ''RADAR_1KM_RSNO'']"

definition legend_style :: "string \<rightharpoonup> string" where
  "legend_style = [''rain'' \<mapsto> ''RADARURPPRECIPR'', ''snow'' \<mapsto> ''RADARURPPRECIPS14'']"

definition radar_params :: params where
  "radar_params =
     [''service'' \<mapsto> PyStr ''WMS'', ''version'' \<mapsto> PyStr ''1.3.0'', ''request'' \<mapsto> PyStr ''GetMap'',
      ''crs'' \<mapsto> PyStr ''EPSG:4326'', ''format'' \<mapsto> PyStr ''image/png'']"

text \<open>The three dictionaries that the module writes to after import.\<close>

record globals =
  basemap_params :: params
  capabilities_params :: params
  legend_params :: params

definition module_globals :: globals where
  "module_globals =
     \<lparr>basemap_params =
        [''service'' \<mapsto> PyStr ''wms'', ''version'' \<mapsto> PyStr ''1.3.0'', ''request'' \<mapsto> PyStr ''GetMap'',
         ''layers'' \<mapsto> PyStr ''CBMT'', ''styles'' \<mapsto> PyStr [], ''CRS'' \<mapsto> PyStr ''epsg:4326'',
         ''format'' \<mapsto> PyStr ''image/png''],
      capabilities_params =
        [''lang'' \<mapsto> PyStr ''en'', ''service'' \<mapsto> PyStr ''WMS'', ''version'' \<mapsto> PyStr ''1.3.0'',
         ''request'' \<mapsto> PyStr ''GetCapabilities''],
      legend_params =
        [''service'' \<mapsto> PyStr ''WMS'', ''version'' \<mapsto> PyStr ''1.3.0'',
         ''request'' \<mapsto> PyStr ''GetLegendGraphic'', ''sld_version'' \<mapsto> PyStr ''1.1.0'',
         ''format'' \<mapsto> PyStr ''image/png'']\<rparr>"

subsection \<open>The session object and its environment\<close>

text \<open>
  \<^verbatim>\<open>self.timestamp\<close> holds a \<^verbatim>\<open>datetime\<close> after construction and a string after
  \<^verbatim>\<open>get_dimensions\<close>.
\<close>

datatype stamp = StampDatetime datetime | StampIso string

record ECRadar =
  precip_type :: string
  self_layer :: string
  legend_image :: image
  legend_position :: "int \<times> int"
  bbox :: "pyfloat \<times> pyfloat \<times> pyfloat \<times> pyfloat"
  map_params :: params
  width :: int
  height :: int
  base_bytes :: bytes
  timestamp :: stamp

text \<open>
  The libraries and the world. A library call returns \<open>Inl\<close> of a message when it raises.
  \<open>pick\<close> is the event loop: of the fetches still pending, the one at position
  \<open>pick pending mod length pending\<close> completes next.
\<close>

record env =
  today_month :: nat
  datetime_now :: datetime
  requests_get :: "string \<Rightarrow> params \<Rightarrow> string + http_response"
  session_get :: "string \<Rightarrow> params \<Rightarrow> string + http_response"
  image_open :: "bytes \<Rightarrow> string + image"
  radar_sites :: "string + (string \<rightharpoonup> pyfloat \<times> pyfloat)"
  et_fromstring :: "string \<Rightarrow> string + element"
  isoparse :: "string \<Rightarrow> string + datetime"
  isoformat :: "datetime \<Rightarrow> string"
  strftime :: "datetime \<Rightarrow> string"
  float_str :: "pyfloat \<Rightarrow> string"
  compose :: "bytes \<Rightarrow> image \<Rightarrow> int \<times> int \<Rightarrow> string \<Rightarrow> bytes \<Rightarrow> datetime \<Rightarrow> string + bytes"
  imread :: "bytes \<Rightarrow> string + image"
  mimwrite :: "image list \<Rightarrow> string + bytes"
  pick :: "nat list \<Rightarrow> nat"
  fp :: fpu

subsection \<open>\<^verbatim>\<open>ECRadar.__init__\<close>\<close>

definition get_station_coords :: "env \<Rightarrow> string \<Rightarrow> error + (pyfloat \<times> pyfloat)" where
  "get_station_coords E station_id =
     (case radar_sites E of
        Inl m \<Rightarrow> Inl (OSError m)
      | Inr site_dict \<Rightarrow>
          (case site_dict station_id of
             None \<Rightarrow> Inl (KeyError station_id)
           | Some (lat, lon) \<Rightarrow> Inr (lat, lon)))"

text \<open>The truth value of an optional string: \<^verbatim>\<open>None\<close> and the empty string are false.\<close>

definition truthy :: "string option \<Rightarrow> bool" where
  "truthy s = (case s of None \<Rightarrow> False | Some v \<Rightarrow> v \<noteq> [])"

definition not_subscriptable :: error where
  "not_subscriptable = TypeError ''NoneType object is not subscriptable''"

definition bbox_string :: "env \<Rightarrow> pyfloat \<times> pyfloat \<times> pyfloat \<times> pyfloat \<Rightarrow> string" where
  "bbox_string E b =
     (case b of (lat_min, lon_min, lat_max, lon_max) \<Rightarrow>
        str_join '','' (map (float_str E) [lat_min, lon_min, lat_max, lon_max]))"

text \<open>Lines 106 to 111: the precipitation type asked for, or the one of the season.\<close>

definition chosen_precip_type :: "env \<Rightarrow> string option \<Rightarrow> string" where
  "chosen_precip_type E precip_type0 =
     (if truthy precip_type0 then str_lower (opt_str precip_type0)
      else if today_month E \<in> set [4..<11] then ''rain''
      else ''snow'')"

text \<open>
  The constructor, with the arguments \<^verbatim>\<open>station_id\<close>, \<^verbatim>\<open>coordinates\<close>, \<^verbatim>\<open>radius\<close>,
  \<^verbatim>\<open>precip_type\<close>, \<^verbatim>\<open>width\<close> and \<^verbatim>\<open>height\<close>, in two parts. Each returns its result
  or the exception, and the module's dictionaries as it leaves them.

  Lines 104 to 121: the precipitation type, the layer and the legend.
\<close>

definition init_legend ::
  "env \<Rightarrow> globals \<Rightarrow> string option \<Rightarrow> (error + (string \<times> string \<times> image)) \<times> globals" where
  "init_legend E G precip_type0 =
     (let ptype = chosen_precip_type E precip_type0
      in case layer ptype of
           None \<Rightarrow> (Inl (KeyError ptype), G)
         | Some lyr \<Rightarrow>
      (case legend_style ptype of
           None \<Rightarrow> (Inl (KeyError ptype), G)
         | Some sty \<Rightarrow>
      (let G1 = G\<lparr>legend_params :=
                    (legend_params G)(''layer'' \<mapsto> PyStr lyr, ''style'' \<mapsto> PyStr sty)\<rparr>
       in case requests_get E geomet_url (legend_params G1) of
            Inl m \<Rightarrow> (Inl (RequestException m), G1)
          | Inr legend_response \<Rightarrow>
      (case image_open E (content legend_response) of
            Inl m \<Rightarrow> (Inl (ImageError m), G1)
          | Inr legend \<Rightarrow> (Inr (ptype, lyr, legend), G1)))))"

text \<open>Lines 122 to 145, and the whole.\<close>

definition ECRadar_init ::
  "env \<Rightarrow> globals \<Rightarrow> string option \<Rightarrow> (pyfloat \<times> pyfloat) option \<Rightarrow> pyfloat \<Rightarrow>
     string option \<Rightarrow> int \<Rightarrow> int \<Rightarrow> (error + ECRadar) \<times> globals" where
  "ECRadar_init E G station_id coordinates radius precip_type0 width0 height0 =
     (case init_legend E G precip_type0 of
        (Inl e, G1) \<Rightarrow> (Inl e, G1)
      | (Inr (ptype, lyr, legend), G1) \<Rightarrow>
      (let position = (width0 - img_width legend, 0)
       in case (if truthy station_id
                then map_sum id Some (get_station_coords E (str_upper (opt_str station_id)))
                else Inr coordinates) of
            Inl e \<Rightarrow> (Inl e, G1)
          | Inr None \<Rightarrow> (Inl not_subscriptable, G1)
          | Inr (Some (lat, lon)) \<Rightarrow>
      (case get_bounding_box (fp E) radius lat lon of
            Inl e \<Rightarrow> (Inl e, G1)
          | Inr box \<Rightarrow>
      (let mp = [''bbox'' \<mapsto> PyStr (bbox_string E box), ''width'' \<mapsto> PyInt width0,
                 ''height'' \<mapsto> PyInt height0];
           G2 = G1\<lparr>basemap_params := basemap_params G1 ++ mp\<rparr>
       in case requests_get E basemap_url (basemap_params G2) of
            Inl m \<Rightarrow> (Inl (RequestException m), G2)
          | Inr basemap_response \<Rightarrow>
              (Inr \<lparr>precip_type = ptype, self_layer = lyr, legend_image = legend,
                     legend_position = position, bbox = box, map_params = mp,
                     width = width0, height = height0,
                     base_bytes = content basemap_response,
                     timestamp = StampDatetime (datetime_now E)\<rparr>, G2)))))"

subsection \<open>\<^verbatim>\<open>ECRadar.get_dimensions\<close>\<close>

text \<open>The list comprehension of line 157: the fields are parsed from left to right.\<close>

fun parse_fields :: "env \<Rightarrow> string list \<Rightarrow> error + datetime list" where
  "parse_fields E [] = Inr []"
| "parse_fields E (t # ts) =
     (case isoparse E t of
        Inl m \<Rightarrow> Inl (ValueError m)
      | Inr d \<Rightarrow>
          (case parse_fields E ts of
             Inl e \<Rightarrow> Inl e
           | Inr ds \<Rightarrow> Inr (d # ds)))"

text \<open>
  The method returns the interval or the exception, and leaves the module's dictionaries
  and the session as the second and third component say.
\<close>

definition get_dimensions ::
  "env \<Rightarrow> globals \<Rightarrow> ECRadar \<Rightarrow> (error + (datetime \<times> datetime)) \<times> globals \<times> ECRadar" where
  "get_dimensions E G self =
     (let G1 = G\<lparr>capabilities_params :=
                   (capabilities_params G)(''layer'' \<mapsto> PyStr (self_layer self))\<rparr>
      in case requests_get E geomet_url (capabilities_params G1) of
           Inl m \<Rightarrow> (Inl (RequestException m), G1, self)
         | Inr response \<Rightarrow>
      (case et_fromstring E (content response) of
           Inl m \<Rightarrow> (Inl (ParseError m), G1, self)
         | Inr capabilities_tree \<Rightarrow>
      (case find_dimension capabilities_tree (self_layer self) of
           None \<Rightarrow> (Inl (AttributeError ''NoneType object has no attribute text''), G1, self)
         | Some dimension \<Rightarrow>
      (case elem_text dimension of
           None \<Rightarrow> (Inl (AttributeError ''NoneType object has no attribute split''), G1, self)
         | Some dimension_string \<Rightarrow>
      (case parse_fields E (take 2 (str_split CHR ''/'' dimension_string)) of
           Inl e \<Rightarrow> (Inl e, G1, self)
         | Inr [start, end_time] \<Rightarrow>
             (Inr (start, end_time), G1, self\<lparr>timestamp := StampIso (isoformat E end_time)\<rparr>)
         | Inr _ \<Rightarrow> (Inl (ValueError ''not enough values to unpack''), G1, self))))))"

subsection \<open>\<^verbatim>\<open>combine_layers\<close> and \<^verbatim>\<open>get_radar_image\<close>\<close>

text \<open>
  \<^verbatim>\<open>combine_layers\<close> is image-library work from its first line to its last: a function
  of the attributes it reads and of its two arguments.
\<close>

definition combine_layers :: "env \<Rightarrow> ECRadar \<Rightarrow> bytes \<Rightarrow> datetime \<Rightarrow> error + bytes" where
  "combine_layers E self radar_bytes frame_time =
     (case compose E (base_bytes self) (legend_image self) (legend_position self)
             (precip_type self) radar_bytes frame_time of
        Inl m \<Rightarrow> Inl (ImageError m)
      | Inr frame_bytes \<Rightarrow> Inr frame_bytes)"

text \<open>
  \<^verbatim>\<open>dict(**radar_params, **self.map_params, layers=..., time=...)\<close> raises when a key
  comes twice. The status of the response is not looked at: its body is returned.
\<close>

definition radar_query :: "env \<Rightarrow> ECRadar \<Rightarrow> datetime \<Rightarrow> params" where
  "radar_query E self frame_time =
     (radar_params ++ map_params self)
       (''layers'' \<mapsto> PyStr (self_layer self), ''time'' \<mapsto> PyStr (strftime E frame_time))"

definition get_radar_image :: "env \<Rightarrow> ECRadar \<Rightarrow> datetime \<Rightarrow> error + bytes" where
  "get_radar_image E self frame_time =
     (if \<exists>k \<in> set [''service'', ''version'', ''request'', ''crs'', ''format'', ''layers'', ''time''].
           map_params self k \<noteq> None
      then Inl (TypeError ''dict() got multiple values for keyword argument'')
      else
        (case session_get E geomet_url (radar_query E self frame_time) of
           Inl m \<Rightarrow> Inl (ClientError m)
         | Inr response \<Rightarrow> Inr (content response)))"

subsection \<open>\<^verbatim>\<open>asyncio.gather\<close>\<close>

text \<open>
  The tasks complete one after the other, in the order the event loop decides: of the
  tasks still pending, \<open>sched\<close> names the next to complete.
\<close>

function completion_order :: "(nat list \<Rightarrow> nat) \<Rightarrow> (nat \<times> 'a) list \<Rightarrow> (nat \<times> 'a) list" where
  "completion_order sched pending =
     (if pending = [] then []
      else
        (let k = sched (map fst pending) mod length pending
         in pending ! k # completion_order sched (take k pending @ drop (Suc k) pending)))"
  by pat_completeness auto
termination
proof (relation "measure (\<lambda>(sched, pending). length pending)", goal_cases)
  case 1
  show ?case by simp
next
  case (2 sched pending k)
  then have "k < length pending" by simp
  then have "k + (length pending - Suc k) < length pending" by arith
  with \<open>k < length pending\<close> show ?case by simp
qed

declare completion_order.simps [simp del]

text \<open>
  A completed task leaves its result in its own future; the first task that completes
  with an exception ends the wait with that exception.
\<close>

fun gather_collect :: "(nat \<times> (error + 'a)) list \<Rightarrow> 'a option list \<Rightarrow> error + 'a option list" where
  "gather_collect [] futures = Inr futures"
| "gather_collect ((i, outcome) # completed) futures =
     (case outcome of
        Inl e \<Rightarrow> Inl e
      | Inr v \<Rightarrow> gather_collect completed (futures[i := Some v]))"

text \<open>Once every task is done the results are read from the futures, in the tasks' order.\<close>

fun results_of :: "'a option list \<Rightarrow> error + 'a list" where
  "results_of [] = Inr []"
| "results_of (None # fs) = Inl (InvalidStateError ''Result is not set.'')"
| "results_of (Some v # fs) =
     (case results_of fs of
        Inl e \<Rightarrow> Inl e
      | Inr vs \<Rightarrow> Inr (v # vs))"

definition gather :: "(nat list \<Rightarrow> nat) \<Rightarrow> (error + 'a) list \<Rightarrow> error + 'a list" where
  "gather sched tasks =
     (case gather_collect (completion_order sched (enumerate 0 tasks))
             (replicate (length tasks) None) of
        Inl e \<Rightarrow> Inl e
      | Inr futures \<Rightarrow> results_of futures)"

subsection \<open>\<^verbatim>\<open>ECRadar.get_loop\<close>\<close>

text \<open>Lines 219 to 224: the list of frame times grows by ten minutes at a time.\<close>

function frame_times_loop :: "datetime list \<Rightarrow> datetime \<Rightarrow> error + datetime list" where
  "frame_times_loop frame_times end_time =
     (if frame_times = [] then Inl (IndexError ''list index out of range'')
      else
        (let next_frame = last frame_times + timedelta_minutes 10
         in if next_frame > end_time then Inr frame_times
            else frame_times_loop (frame_times @ [next_frame]) end_time))"
  by pat_completeness auto
termination
  by (relation "measure (\<lambda>(frame_times, end_time). nat (end_time - last frame_times))")
    (auto simp: timedelta_minutes_def)

declare frame_times_loop.simps [simp del]

text \<open>Lines 236 and 237.\<close>

fun combine_loop ::
  "env \<Rightarrow> ECRadar \<Rightarrow> datetime list \<Rightarrow> (nat \<times> bytes) list \<Rightarrow> bytes list \<Rightarrow> error + bytes list" where
  "combine_loop E self frame_times [] frames = Inr frames"
| "combine_loop E self frame_times ((i, f) # rest) frames =
     (if i < length frame_times then
        (case combine_layers E self f (frame_times ! i) of
           Inl e \<Rightarrow> Inl e
         | Inr frame \<Rightarrow> combine_loop E self frame_times rest (frames @ [frame]))
      else Inl (IndexError ''list index out of range''))"

text \<open>Lines 239 and 240, for \<open>n\<close> rounds.\<close>

fun pad_loop :: "nat \<Rightarrow> bytes list \<Rightarrow> error + bytes list" where
  "pad_loop 0 frames = Inr frames"
| "pad_loop (Suc n) frames =
     (if frames = [] then Inl (IndexError ''list index out of range'')
      else pad_loop n (frames @ [last frames]))"

text \<open>
  Lines 217 to 240, from the interval to the frames: the list of frame times and the list
  that goes to the encoder.
\<close>

definition frames_of_interval ::
  "env \<Rightarrow> ECRadar \<Rightarrow> datetime \<Rightarrow> datetime \<Rightarrow> error + (datetime list \<times> bytes list)" where
  "frames_of_interval E self start end_time =
     (case frame_times_loop [start] end_time of
        Inl e \<Rightarrow> Inl e
      | Inr frame_times \<Rightarrow>
          (case gather (pick E) (map (get_radar_image E self) frame_times) of
             Inl e \<Rightarrow> Inl e
           | Inr radar_layers \<Rightarrow>
               (case combine_loop E self frame_times (enumerate 0 radar_layers) [] of
                  Inl e \<Rightarrow> Inl e
                | Inr frames \<Rightarrow>
                    (case pad_loop 3 frames of
                       Inl e \<Rightarrow> Inl e
                     | Inr padded \<Rightarrow> Inr (frame_times, padded)))))"

definition get_loop_frames ::
  "env \<Rightarrow> globals \<Rightarrow> ECRadar \<Rightarrow> (error + (datetime list \<times> bytes list)) \<times> globals \<times> ECRadar" where
  "get_loop_frames E G self =
     (case get_dimensions E G self of
        (Inl e, G1, self1) \<Rightarrow> (Inl e, G1, self1)
      | (Inr (start, end_time), G1, self1) \<Rightarrow>
          (frames_of_interval E self1 start end_time, G1, self1))"

text \<open>Lines 243 to 247: every frame is decoded, and the encoder gets the list.\<close>

fun read_frames :: "env \<Rightarrow> bytes list \<Rightarrow> error + image list" where
  "read_frames E [] = Inr []"
| "read_frames E (f # fs) =
     (case imread E f of
        Inl m \<Rightarrow> Inl (ImageError m)
      | Inr g \<Rightarrow>
          (case read_frames E fs of
             Inl e \<Rightarrow> Inl e
           | Inr gs \<Rightarrow> Inr (g # gs)))"

definition assemble :: "env \<Rightarrow> bytes list \<Rightarrow> error + bytes" where
  "assemble E frames =
     (case read_frames E frames of
        Inl e \<Rightarrow> Inl e
      | Inr gif_frames \<Rightarrow>
          (case mimwrite E gif_frames of
             Inl m \<Rightarrow> Inl (ImageError m)
           | Inr gif_bytes \<Rightarrow> Inr gif_bytes))"

definition get_loop :: "env \<Rightarrow> globals \<Rightarrow> ECRadar \<Rightarrow> (error + bytes) \<times> globals \<times> ECRadar" where
  "get_loop E G self =
     (case get_loop_frames E G self of
        (Inl e, G1, self1) \<Rightarrow> (Inl e, G1, self1)
      | (Inr (frame_times, frames), G1, self1) \<Rightarrow> (assemble E frames, G1, self1))"

subsection \<open>Sample environments\<close>

text \<open>
  Concrete environments on which the model runs. \<open>exact_fpu\<close> computes with exact real
  numbers (and rounds a half upwards); \<open>sample_env\<close> serves one capability document with two layers, answers every
  radar request with a body that names the requested time, and completes the pending
  fetches last first.
\<close>

definition exact_fpu :: fpu where
  "exact_fpu =
     \<lparr>fp_radians = (\<lambda>x. case x of Finite r \<Rightarrow> Finite (r * pi / 180) | _ \<Rightarrow> x),
      fp_degrees = (\<lambda>x. case x of Finite r \<Rightarrow> Finite (r * 180 / pi) | _ \<Rightarrow> x),
      fp_add = (\<lambda>x y. case (x, y) of (Finite a, Finite b) \<Rightarrow> Finite (a + b) | _ \<Rightarrow> NaN),
      fp_sub = (\<lambda>x y. case (x, y) of (Finite a, Finite b) \<Rightarrow> Finite (a - b) | _ \<Rightarrow> NaN),
      fp_div = (\<lambda>x y. case (x, y) of (Finite a, Finite b) \<Rightarrow> Finite (a / b) | _ \<Rightarrow> NaN),
      fp_sin = (\<lambda>x. case x of Finite r \<Rightarrow> Finite (sin r) | _ \<Rightarrow> NaN),
      fp_cos = (\<lambda>x. case x of Finite r \<Rightarrow> Finite (cos r) | _ \<Rightarrow> NaN),
      fp_asin = (\<lambda>x. case x of Finite r \<Rightarrow> Finite (arcsin r) | _ \<Rightarrow> NaN),
      fp_round = (\<lambda>x n. case x of
                      Finite r \<Rightarrow> Finite (of_int (round (r * 10 ^ nat n)) / 10 ^ nat n)
                    | _ \<Rightarrow> x)\<rparr>"

definition rain_dimension :: element where
  "rain_dimension =
     Element (wms ''Dimension'') (Some ''2024-01-01T00:00:00Z/2024-01-01T00:25:00Z/PT10M'') None []"

definition sample_tree :: element where
  "sample_tree =
     Element (wms ''WMS_Capabilities'') None None
       [Element (wms ''Capability'') None None
          [Element (wms ''Layer'') None None
             [Element (wms ''Name'') (Some ''RADAR_1KM_RSNO'') None [],
              Element (wms ''Dimension'')
                (Some ''2023-12-31T21:00:00Z/2024-01-01T00:00:00Z/PT10M'') None []],
           Element (wms ''Layer'') None None
             [Element (wms ''Name'') (Some ''RADAR_1KM_RRAI'') None [], rain_dimension]]]"




definition sample_env :: env where
  "sample_env =
     \<lparr>today_month = 7,
      datetime_now = 1704068760000000,
      requests_get = (\<lambda>url query.
         if url = basemap_url then Inr \<lparr>status_code = 200, content = ''basemap''\<rparr>
         else if query ''request'' = Some (PyStr ''GetCapabilities'')
         then Inr \<lparr>status_code = 200, content = ''capabilities''\<rparr>
         else Inr \<lparr>status_code = 200, content = ''legend''\<rparr>),
      session_get = (\<lambda>url query.
         case query ''time'' of
           Some (PyStr t) \<Rightarrow> Inr \<lparr>status_code = 200, content = ''radar '' @ t\<rparr>
         | _ \<Rightarrow> Inl ''no time''),
      image_open = (\<lambda>b. Inr \<lparr>img_width = 100, img_height = 40, img_data = b\<rparr>),
      radar_sites = Inr [''XYZ'' \<mapsto> (Finite 0, Finite 0)],
      et_fromstring = (\<lambda>s. if s = ''capabilities'' then Inr sample_tree else Inl ''syntax error''),
      isoparse = (\<lambda>s.
         if s = ''2024-01-01T00:00:00Z'' then Inr 1704067200000000
         else if s = ''2024-01-01T00:25:00Z'' then Inr 1704068700000000
         else Inl ''invalid isoformat string''),
      isoformat = (\<lambda>t.
         if t = 1704068700000000 then ''2024-01-01T00:25:00+00:00'' else ''another time''),
      strftime = (\<lambda>t.
         if t = 1704067200000000 then ''2024-01-01T00:00:00Z''
         else if t = 1704067800000000 then ''2024-01-01T00:10:00Z''
         else if t = 1704068400000000 then ''2024-01-01T00:20:00Z''
         else ''another time''),
      float_str = (\<lambda>x. if x = Finite 0 then ''0.0'' else ''nonzero''),
      compose = (\<lambda>base legend position ptype radar t. Inr (''frame of '' @ radar)),
      imread = (\<lambda>b. Inr \<lparr>img_width = 800, img_height = 800, img_data = b\<rparr>),
      mimwrite = (\<lambda>images. Inr (concat (map img_data images))),
      pick = (\<lambda>pending. length pending - 1),
      fp = exact_fpu\<rparr>"

definition sample_radar :: ECRadar where
  "sample_radar =
     \<lparr>precip_type = ''rain'', self_layer = ''RADAR_1KM_RRAI'',
      legend_image = \<lparr>img_width = 100, img_height = 40, img_data = ''legend''\<rparr>,
      legend_position = (700, 0),
      bbox = (Finite 0, Finite 0, Finite 0, Finite 0),
      map_params =
        [''bbox'' \<mapsto> PyStr ''0.0,0.0,0.0,0.0'', ''width'' \<mapsto> PyInt 800,
         ''height'' \<mapsto> PyInt 800],
      width = 800, height = 800, base_bytes = ''basemap'',
      timestamp = StampDatetime 1704068760000000\<rparr>"

text \<open>
  The service answers the request for 00:10 with status 503 and a placeholder raster as
  body.
\<close>

definition status_env :: env where
  "status_env =
     sample_env\<lparr>session_get := (\<lambda>url query.
        if query ''time'' = Some (PyStr ''2024-01-01T00:10:00Z'')
        then Inr \<lparr>status_code = 503, content = ''blank tile''\<rparr>
        else session_get sample_env url query)\<rparr>"



text \<open>The session and the dictionaries after \<^verbatim>\<open>get_dimensions\<close> has run in \<open>sample_env\<close>.\<close>

definition resolved_radar :: ECRadar where
  "resolved_radar = sample_radar\<lparr>timestamp := StampIso ''2024-01-01T00:25:00+00:00''\<rparr>"

definition resolved_globals :: globals where
  "resolved_globals =
     module_globals\<lparr>capabilities_params :=
       (capabilities_params module_globals)(''layer'' \<mapsto> PyStr ''RADAR_1KM_RRAI'')\<rparr>"

text \<open>
  The module's dictionaries after a first session (a station XYZ at latitude 0 and
  longitude 0, radius 0, the season's precipitation type, 800 by 800) and after a second
  (snow, 400 by 300), and the second session.
\<close>

definition first_globals :: globals where
  "first_globals =
     module_globals\<lparr>
       legend_params := (legend_params module_globals)
         (''layer'' \<mapsto> PyStr ''RADAR_1KM_RRAI'', ''style'' \<mapsto> PyStr ''RADARURPPRECIPR''),
       basemap_params := (basemap_params module_globals)
         (''bbox'' \<mapsto> PyStr ''0.0,0.0,0.0,0.0'', ''width'' \<mapsto> PyInt 800,
          ''height'' \<mapsto> PyInt 800)\<rparr>"

definition snow_radar :: ECRadar where
  "snow_radar =
     \<lparr>precip_type = ''snow'', self_layer = ''RADAR_1KM_RSNO'',
      legend_image = \<lparr>img_width = 100, img_height = 40, img_data = ''legend''\<rparr>,
      legend_position = (300, 0),
      bbox = (Finite 0, Finite 0, Finite 0, Finite 0),
      map_params =
        [''bbox'' \<mapsto> PyStr ''0.0,0.0,0.0,0.0'', ''width'' \<mapsto> PyInt 400,
         ''height'' \<mapsto> PyInt 300],
      width = 400, height = 300, base_bytes = ''basemap'',
      timestamp = StampDatetime 1704068760000000\<rparr>"

definition second_globals :: globals where
  "second_globals =
     first_globals\<lparr>
       legend_params := (legend_params first_globals)
         (''layer'' \<mapsto> PyStr ''RADAR_1KM_RSNO'', ''style'' \<mapsto> PyStr ''RADARURPPRECIPS14''),
       basemap_params := (basemap_params first_globals)
         (''bbox'' \<mapsto> PyStr ''0.0,0.0,0.0,0.0'', ''width'' \<mapsto> PyInt 400,
          ''height'' \<mapsto> PyInt 300)\<rparr>"

subsection \<open>Notions of the specification\<close>


text \<open>
  The text of the layer's dimension, if the document has one. The resolver reads it as
  start, end and an optional step separated by \<^verbatim>\<open>/\<close>, and parses the two endpoints as
  ISO-8601: a text with fewer than two fields, or with an endpoint that the parser rejects,
  is malformed. A document is malformed when the dimension or its text is missing or the
  text is malformed.
\<close>

definition dimension_text :: "element \<Rightarrow> string \<Rightarrow> string option" where
  "dimension_text tree name =
     (case dimension_elements tree name of [] \<Rightarrow> None | d # _ \<Rightarrow> elem_text d)"

definition malformed_dimension_text :: "env \<Rightarrow> string \<Rightarrow> bool" where
  "malformed_dimension_text E txt =
     (case str_split CHR ''/'' txt of
        start_field # end_field # rest \<Rightarrow>
          isl (isoparse E start_field) \<or> isl (isoparse E end_field)
      | _ \<Rightarrow> True)"

definition malformed_document :: "env \<Rightarrow> element \<Rightarrow> string \<Rightarrow> bool" where
  "malformed_document E tree name =
     (case dimension_text tree name of
        None \<Rightarrow> True
      | Some txt \<Rightarrow> malformed_dimension_text E txt)"

text \<open>A float that is a number, or an infinity, outside the interval from -1 to 1.\<close>

definition outside_asin_domain :: "pyfloat \<Rightarrow> bool" where
  "outside_asin_domain x =
     (case x of
        Finite r \<Rightarrow> r < - 1 \<or> 1 < r
      | PosInf \<Rightarrow> True
      | NegInf \<Rightarrow> True
      | NaN \<Rightarrow> False)"

section \<open>Properties\<close>

subsection \<open>The frame schedule\<close>

lemma frame_times_loop_stop:
  "frame_times \<noteq> [] \<Longrightarrow> end_time < last frame_times + timedelta_minutes 10 \<Longrightarrow>
   frame_times_loop frame_times end_time = Inr frame_times"
  by (simp add: frame_times_loop.simps [of frame_times end_time])

lemma frame_times_loop_step:
  "frame_times \<noteq> [] \<Longrightarrow> last frame_times + timedelta_minutes 10 \<le> end_time \<Longrightarrow>
   frame_times_loop frame_times end_time =
     frame_times_loop (frame_times @ [last frame_times + timedelta_minutes 10]) end_time"
  by (simp add: frame_times_loop.simps [of frame_times end_time] Let_def)

lemma frame_times_loop_appends:
  "acc \<noteq> [] \<Longrightarrow>
   \<exists>ts. frame_times_loop acc end_time = Inr (acc @ ts)
     \<and> (\<forall>i<length ts. ts ! i = last acc + (int i + 1) * timedelta_minutes 10 \<and> ts ! i \<le> end_time)
     \<and> end_time < last (acc @ ts) + timedelta_minutes 10"
proof (induction acc end_time rule: frame_times_loop.induct)
  case (1 acc end_time)
  let ?n = "last acc + timedelta_minutes 10"
  show ?case
  proof (cases "end_time < ?n")
    case True
    with "1.prems" have "frame_times_loop acc end_time = Inr (acc @ [])"
      by (simp add: frame_times_loop_stop)
    with True show ?thesis by (intro exI [of _ "[]"]) simp
  next
    case False
    with "1.prems" have step:
      "frame_times_loop acc end_time = frame_times_loop (acc @ [?n]) end_time"
      by (simp add: frame_times_loop_step)
    from False have "\<not> end_time < ?n" .
    from "1.IH" [OF "1.prems" refl] False obtain ts where
      run: "frame_times_loop (acc @ [?n]) end_time = Inr ((acc @ [?n]) @ ts)"
      and each: "\<forall>i<length ts. ts ! i = ?n + (int i + 1) * timedelta_minutes 10 \<and> ts ! i \<le> end_time"
      and stop: "end_time < last ((acc @ [?n]) @ ts) + timedelta_minutes 10"
      by auto
    have "\<forall>i<length (?n # ts).
        (?n # ts) ! i = last acc + (int i + 1) * timedelta_minutes 10 \<and> (?n # ts) ! i \<le> end_time"
    proof (intro allI impI)
      fix i
      assume "i < length (?n # ts)"
      then show "(?n # ts) ! i = last acc + (int i + 1) * timedelta_minutes 10 \<and> (?n # ts) ! i \<le> end_time"
        using each False by (cases i) (auto simp: algebra_simps)
    qed
    moreover from step run have "frame_times_loop acc end_time = Inr (acc @ ?n # ts)"
      by simp
    moreover from stop have "end_time < last (acc @ ?n # ts) + timedelta_minutes 10"
      by simp
    ultimately show ?thesis by blast
  qed
qed



subsection \<open>Gathering the fetches\<close>

lemma set_completion_order: "set (completion_order sched pending) = set pending"
proof (induction sched pending rule: completion_order.induct)
  case (1 sched pending)
  show ?case
  proof (cases "pending = []")
    case True
    then show ?thesis by (simp add: completion_order.simps)
  next
    case False
    define k where "k = sched (map fst pending) mod length pending"
    from False have k: "k < length pending" by (simp add: k_def)
    have split: "pending = take k pending @ pending ! k # drop (Suc k) pending"
      using k by (rule id_take_nth_drop)
    have "set (completion_order sched (take k pending @ drop (Suc k) pending)) =
        set (take k pending @ drop (Suc k) pending)"
      using "1.IH" [OF False k_def] .
    moreover have "completion_order sched pending =
        pending ! k # completion_order sched (take k pending @ drop (Suc k) pending)"
      using False by (simp add: completion_order.simps [of sched pending] k_def Let_def)
    moreover have "set pending = insert (pending ! k) (set (take k pending @ drop (Suc k) pending))"
      by (subst split) auto
    ultimately show ?thesis by simp
  qed
qed

lemma gather_collect_Inr:
  "gather_collect completed futures = Inr fs \<Longrightarrow>
   length fs = length futures \<and>
   (\<forall>j<length futures.
      (\<exists>v. fs ! j = Some v \<and> (j, Inr v) \<in> set completed) \<or>
      (fs ! j = futures ! j \<and> j \<notin> fst ` set completed))"
proof (induction completed futures arbitrary: fs rule: gather_collect.induct)
  case (1 futures)
  then show ?case by simp
next
  case (2 i outcome completed futures)
  from "2.prems" obtain v where v: "outcome = Inr v"
    and run: "gather_collect completed (futures[i := Some v]) = Inr fs"
    by (cases outcome) auto
  from "2.IH" [OF v run] have len: "length fs = length futures"
    and each: "\<forall>j<length futures.
      (\<exists>w. fs ! j = Some w \<and> (j, Inr w) \<in> set completed) \<or>
      (fs ! j = futures[i := Some v] ! j \<and> j \<notin> fst ` set completed)"
    by simp_all
  have "(\<exists>w. fs ! j = Some w \<and> (j, Inr w) \<in> set ((i, outcome) # completed)) \<or>
      (fs ! j = futures ! j \<and> j \<notin> fst ` set ((i, outcome) # completed))"
    if j: "j < length futures" for j
  proof (cases "j = i")
    case True
    with each j v show ?thesis by auto
  next
    case False
    with each j show ?thesis by auto
  qed
  with len show ?case by blast
qed


lemma gather_collect_total:
  "\<forall>p \<in> set completed. \<exists>v. snd p = Inr v \<Longrightarrow> \<exists>fs. gather_collect completed futures = Inr fs"
proof (induction completed futures rule: gather_collect.induct)
  case (1 futures)
  then show ?case by simp
next
  case (2 i outcome completed futures)
  then show ?case by (cases outcome) auto
qed

lemma results_of_map_Some: "results_of (map Some vs) = Inr vs"
  by (induction vs) simp_all

lemma results_of_Inr: "results_of fs = Inr vs \<longleftrightarrow> fs = map Some vs"
proof
  show "fs = map Some vs" if "results_of fs = Inr vs"
    using that
  proof (induction fs arbitrary: vs rule: results_of.induct)
    case 1
    then show ?case by simp
  next
    case (2 fs)
    then show ?case by simp
  next
    case (3 v fs)
    from "3.prems" obtain ws where "results_of fs = Inr ws" and "vs = v # ws"
      by (auto split: sum.splits)
    with "3.IH" show ?case by simp
  qed
  show "results_of fs = Inr vs" if "fs = map Some vs"
    using that by (simp add: results_of_map_Some)
qed

lemma gather_Inr: "gather sched tasks = Inr rs \<longleftrightarrow> tasks = map Inr rs"
proof
  assume run: "gather sched tasks = Inr rs"
  then obtain fs where
    collect: "gather_collect (completion_order sched (enumerate 0 tasks))
       (replicate (length tasks) None) = Inr fs"
    and read: "results_of fs = Inr rs"
    by (auto simp: gather_def split: sum.splits)
  from read have fs: "fs = map Some rs" by (simp add: results_of_Inr)
  from gather_collect_Inr [OF collect] have len: "length fs = length tasks"
    and each: "\<forall>j<length tasks.
      (\<exists>v. fs ! j = Some v \<and> (j, Inr v) \<in> set (enumerate 0 tasks)) \<or>
      (fs ! j = None \<and> j \<notin> fst ` set (enumerate 0 tasks))"
    by (simp_all add: set_completion_order)
  have "tasks ! j = Inr (rs ! j)" if "j < length tasks" for j
    using each that fs len by (auto simp: in_set_enumerate_eq)
  with fs len show "tasks = map Inr rs"
    by (intro nth_equalityI) simp_all
next
  assume tasks: "tasks = map Inr rs"
  then have "\<forall>p \<in> set (completion_order sched (enumerate 0 tasks)). \<exists>v. snd p = Inr v"
    by (auto simp: set_completion_order in_set_enumerate_eq)
  from gather_collect_total [OF this] obtain fs where
    collect: "gather_collect (completion_order sched (enumerate 0 tasks))
       (replicate (length tasks) None) = Inr fs"
    by blast
  from gather_collect_Inr [OF collect] have len: "length fs = length tasks"
    and each: "\<forall>j<length tasks.
      (\<exists>v. fs ! j = Some v \<and> (j, Inr v) \<in> set (enumerate 0 tasks)) \<or>
      (fs ! j = None \<and> j \<notin> fst ` set (enumerate 0 tasks))"
    by (simp_all add: set_completion_order)
  have "fs ! j = Some (rs ! j)" if "j < length tasks" for j
  proof -
    from that have "(j, tasks ! j) \<in> set (enumerate 0 tasks)"
      by (simp add: in_set_enumerate_eq)
    then have "j \<in> fst ` set (enumerate 0 tasks)" by force
    with each that obtain v where "fs ! j = Some v" "(j, Inr v) \<in> set (enumerate 0 tasks)"
      by blast
    with tasks that show ?thesis by (simp add: in_set_enumerate_eq)
  qed
  with len tasks have "fs = map Some rs"
    by (intro nth_equalityI) simp_all
  with collect show "gather sched tasks = Inr rs"
    by (simp add: gather_def results_of_Inr)
qed



subsection \<open>The loops of \<^verbatim>\<open>get_loop\<close>\<close>

lemma combine_loop_Inr:
  "combine_loop E self frame_times (enumerate k radar_layers) acc = Inr frames \<Longrightarrow>
   \<exists>new. frames = acc @ new \<and> length new = length radar_layers \<and>
     (\<forall>i<length radar_layers. k + i < length frame_times \<and>
        combine_layers E self (radar_layers ! i) (frame_times ! (k + i)) = Inr (new ! i))"
proof (induction radar_layers arbitrary: k acc)
  case Nil
  then show ?case by simp
next
  case (Cons f rest)
  from Cons.prems obtain frame where k: "k < length frame_times"
    and here: "combine_layers E self f (frame_times ! k) = Inr frame"
    and run: "combine_loop E self frame_times (enumerate (Suc k) rest) (acc @ [frame]) = Inr frames"
    by (auto split: if_splits sum.splits)
  from Cons.IH [OF run] obtain new where new: "frames = (acc @ [frame]) @ new"
    "length new = length rest"
    "\<forall>i<length rest. Suc k + i < length frame_times \<and>
        combine_layers E self (rest ! i) (frame_times ! (Suc k + i)) = Inr (new ! i)"
    by blast
  have "k + i < length frame_times \<and>
      combine_layers E self ((f # rest) ! i) (frame_times ! (k + i)) = Inr ((frame # new) ! i)"
    if "i < length (f # rest)" for i
    using that k here new(3) by (cases i) auto
  with new(1,2) show ?case
    by (intro exI [of _ "frame # new"]) simp
qed

lemma pad_loop_Inr: "frames \<noteq> [] \<Longrightarrow> pad_loop n frames = Inr (frames @ replicate n (last frames))"
proof (induction n arbitrary: frames)
  case 0
  then show ?case by simp
next
  case (Suc n)
  then show ?case by (simp add: replicate_app_Cons_same)
qed

lemma frame_times_loop_Inr:
  "frame_times_loop [start] end_time = Inr frame_times \<Longrightarrow>
   frame_times \<noteq> [] \<and> (\<forall>i<length frame_times. frame_times ! i = start + int i * timedelta_minutes 10)"
proof -
  assume run: "frame_times_loop [start] end_time = Inr frame_times"
  from frame_times_loop_appends [of "[start]" end_time] obtain ts where
    "frame_times_loop [start] end_time = Inr (start # ts)"
    and each: "\<forall>i<length ts. ts ! i = start + (int i + 1) * timedelta_minutes 10 \<and> ts ! i \<le> end_time"
    by auto
  with run have ft: "frame_times = start # ts" by simp
  have "frame_times ! i = start + int i * timedelta_minutes 10" if "i < length frame_times" for i
    using that each ft by (cases i) (auto simp: algebra_simps)
  with ft show ?thesis by simp
qed

lemma frames_of_interval_Inr:
  assumes "frames_of_interval E self start end_time = Inr (frame_times, frames)"
  shows "frame_times_loop [start] end_time = Inr frame_times \<and> frame_times \<noteq> [] \<and>
    (\<exists>composites. length composites = length frame_times \<and>
       frames = composites @ replicate 3 (last composites) \<and>
       (\<forall>i<length frame_times. \<exists>radar.
          get_radar_image E self (frame_times ! i) = Inr radar \<and>
          combine_layers E self radar (frame_times ! i) = Inr (composites ! i)))"
proof -
  from assms obtain radar_layers composites where
    times: "frame_times_loop [start] end_time = Inr frame_times"
    and fetch: "gather (pick E) (map (get_radar_image E self) frame_times) = Inr radar_layers"
    and combine: "combine_loop E self frame_times (enumerate 0 radar_layers) [] = Inr composites"
    and pad: "pad_loop 3 composites = Inr frames"
    by (auto simp: frames_of_interval_def split: sum.splits)
  from times have nonempty: "frame_times \<noteq> []"
    by (simp add: frame_times_loop_Inr)
  from fetch have tasks: "map (get_radar_image E self) frame_times = map Inr radar_layers"
    by (simp add: gather_Inr)
  then have len: "length radar_layers = length frame_times"
    by (metis length_map)
  from tasks have fetched: "get_radar_image E self (frame_times ! i) = Inr (radar_layers ! i)"
    if "i < length frame_times" for i
    using that len by (metis nth_map)
  from combine_loop_Inr [OF combine] have clen: "length composites = length radar_layers"
    and each: "\<forall>i<length radar_layers.
        combine_layers E self (radar_layers ! i) (frame_times ! i) = Inr (composites ! i)"
    by auto
  from clen len nonempty have "composites \<noteq> []" by auto
  with pad have "frames = composites @ replicate 3 (last composites)"
    by (simp add: pad_loop_Inr)
  moreover have "\<exists>radar. get_radar_image E self (frame_times ! i) = Inr radar \<and>
      combine_layers E self radar (frame_times ! i) = Inr (composites ! i)"
    if "i < length frame_times" for i
    using that fetched each len by auto
  ultimately show ?thesis using times nonempty clen len by auto
qed

lemma get_loop_frames_Inr:
  assumes "get_loop_frames E G self = (Inr (frame_times, frames), G', self')"
  shows "\<exists>start end_time. get_dimensions E G self = (Inr (start, end_time), G', self') \<and>
     frames_of_interval E self' start end_time = Inr (frame_times, frames)"
  using assms by (auto simp: get_loop_frames_def split: prod.splits sum.splits)

lemma parse_fields_pick: "parse_fields (E\<lparr>pick := sched\<rparr>) ts = parse_fields E ts"
  by (induction ts) (simp_all cong: sum.case_cong)

lemma get_dimensions_pick: "get_dimensions (E\<lparr>pick := sched\<rparr>) G self = get_dimensions E G self"
  by (simp add: get_dimensions_def parse_fields_pick Let_def
      cong: sum.case_cong option.case_cong list.case_cong)

lemma get_radar_image_pick: "get_radar_image (E\<lparr>pick := sched\<rparr>) self = get_radar_image E self"
  by (rule ext) (simp add: get_radar_image_def radar_query_def cong: sum.case_cong)

lemma combine_loop_pick:
  "combine_loop (E\<lparr>pick := sched\<rparr>) self frame_times indexed acc =
   combine_loop E self frame_times indexed acc"
  by (induction indexed arbitrary: acc) (auto simp: combine_layers_def cong: sum.case_cong)

lemma frames_of_interval_pick:
  assumes "frames_of_interval E self start end_time = Inr result"
  shows "frames_of_interval (E\<lparr>pick := sched\<rparr>) self start end_time = Inr result"
proof -
  from assms obtain frame_times radar_layers where
    times: "frame_times_loop [start] end_time = Inr frame_times"
    and fetch: "gather (pick E) (map (get_radar_image E self) frame_times) = Inr radar_layers"
    by (auto simp: frames_of_interval_def split: sum.splits)
  from fetch have "gather sched (map (get_radar_image E self) frame_times) = Inr radar_layers"
    by (simp add: gather_Inr)
  with assms times fetch show ?thesis
    by (simp add: frames_of_interval_def get_radar_image_pick combine_loop_pick
        cong: sum.case_cong)
qed

subsection \<open>Runs in the sample environments\<close>

lemma completion_order_Nil: "completion_order sched [] = []"
  by (simp add: completion_order.simps)

lemma completion_order_Cons:
  "completion_order sched (p # ps) =
     (let pending = p # ps; k = sched (map fst pending) mod length pending
      in pending ! k # completion_order sched (take k pending @ drop (Suc k) pending))"
  by (simp add: completion_order.simps [of sched "p # ps"] Let_def)

text \<open>In \<open>sample_env\<close> the last of three fetches completes first.\<close>

lemma sample_completion_order:
  "completion_order (pick sample_env) (enumerate 0 [a, b, c]) = [(2, c), (1, b), (0, a)]"
  by (simp add: completion_order_Nil completion_order_Cons sample_env_def Let_def)

lemma module_request:
  "capabilities_params module_globals ''request'' = Some (PyStr ''GetCapabilities'')"
  by (simp add: module_globals_def)

lemma sample_dimensions:
  "get_dimensions sample_env module_globals sample_radar =
     (Inr (1704067200000000, 1704068700000000), resolved_globals, resolved_radar)"
  by (simp add: get_dimensions_def sample_env_def sample_radar_def sample_tree_def
      rain_dimension_def find_dimension_def dimension_elements_def named_layers_def wms_def
      geomet_url_def basemap_url_def module_request opt_str_def str_split_def Let_def
      resolved_globals_def resolved_radar_def)


lemma sample_schedule:
  "frame_times_loop [1704067200000000] 1704068700000000 =
     Inr [1704067200000000, 1704067800000000, 1704068400000000]"
  by (simp add: frame_times_loop_stop frame_times_loop_step timedelta_minutes_def)

lemma resolved_map_params:
  "map_params resolved_radar k =
     (if k = ''bbox'' then Some (PyStr ''0.0,0.0,0.0,0.0'')
      else if k = ''width'' then Some (PyInt 800)
      else if k = ''height'' then Some (PyInt 800) else None)"
  by (simp add: resolved_radar_def sample_radar_def)

lemma resolved_fetch:
  "get_radar_image E resolved_radar t =
     (case session_get E geomet_url (radar_query E resolved_radar t) of
        Inl m \<Rightarrow> Inl (ClientError m)
      | Inr response \<Rightarrow> Inr (content response))"
  by (subst get_radar_image_def) (simp add: resolved_map_params)

text \<open>Whatever the status of the response, its body is the result of the fetch.\<close>

lemma get_radar_image_any_status:
  assumes "dom (map_params self) = {''bbox'', ''width'', ''height''}"
    and "session_get E geomet_url (radar_query E self t) = Inr response"
  shows "get_radar_image E self t = Inr (content response)"
proof -
  have "map_params self k = None" if "k \<notin> {''bbox'', ''width'', ''height''}" for k
    using that assms(1) by (metis domIff)
  then have "\<not> (\<exists>k \<in> set [''service'', ''version'', ''request'', ''crs'', ''format'', ''layers'',
      ''time'']. map_params self k \<noteq> None)"
    by simp
  with assms(2) show ?thesis
    by (simp only: get_radar_image_def if_False sum.case)
qed

lemma resolved_query_time:
  "radar_query E resolved_radar t ''time'' = Some (PyStr (strftime E t))"
  by (simp add: radar_query_def)

lemma sample_times:
  "strftime sample_env 1704067200000000 = ''2024-01-01T00:00:00Z''"
  "strftime sample_env 1704067800000000 = ''2024-01-01T00:10:00Z''"
  "strftime sample_env 1704068400000000 = ''2024-01-01T00:20:00Z''"
  by (simp_all add: sample_env_def)

lemma sample_session_get:
  "session_get sample_env url query =
     (case query ''time'' of
        Some (PyStr t) \<Rightarrow> Inr \<lparr>status_code = 200, content = ''radar '' @ t\<rparr>
      | _ \<Rightarrow> Inl ''no time'')"
  by (simp add: sample_env_def)

lemma sample_fetches:
  "map (get_radar_image sample_env resolved_radar)
     [1704067200000000, 1704067800000000, 1704068400000000] =
   [Inr ''radar 2024-01-01T00:00:00Z'', Inr ''radar 2024-01-01T00:10:00Z'',
    Inr ''radar 2024-01-01T00:20:00Z'']"
  by (simp add: resolved_fetch sample_session_get resolved_query_time sample_times)



lemma frames_of_interval_run:
  assumes "frame_times_loop [start] end_time = Inr frame_times"
    and "map (get_radar_image E self) frame_times = map Inr radar_layers"
    and "combine_loop E self frame_times (enumerate 0 radar_layers) [] = Inr composites"
    and "composites \<noteq> []"
  shows "frames_of_interval E self start end_time =
    Inr (frame_times, composites @ replicate 3 (last composites))"
proof -
  from assms(2) have "gather (pick E) (map (get_radar_image E self) frame_times) = Inr radar_layers"
    by (simp only: gather_Inr)
  with assms(1,3,4) show ?thesis
    by (simp add: frames_of_interval_def pad_loop_Inr)
qed

lemma sample_compose:
  "combine_layers sample_env self radar t = Inr (''frame of '' @ radar)"
  "combine_layers status_env self radar t = Inr (''frame of '' @ radar)"
  by (simp_all add: combine_layers_def sample_env_def status_env_def)

lemma sample_frames:
  "get_loop_frames sample_env module_globals sample_radar =
     (Inr ([1704067200000000, 1704067800000000, 1704068400000000],
        [''frame of radar 2024-01-01T00:00:00Z'', ''frame of radar 2024-01-01T00:10:00Z'',
         ''frame of radar 2024-01-01T00:20:00Z'', ''frame of radar 2024-01-01T00:20:00Z'',
         ''frame of radar 2024-01-01T00:20:00Z'', ''frame of radar 2024-01-01T00:20:00Z'']),
      resolved_globals, resolved_radar)"
proof -
  have "frames_of_interval sample_env resolved_radar 1704067200000000 1704068700000000 =
     Inr ([1704067200000000, 1704067800000000, 1704068400000000],
        [''frame of radar 2024-01-01T00:00:00Z'', ''frame of radar 2024-01-01T00:10:00Z'',
         ''frame of radar 2024-01-01T00:20:00Z''] @
        replicate 3 (last [''frame of radar 2024-01-01T00:00:00Z'', ''frame of radar 2024-01-01T00:10:00Z'',
         ''frame of radar 2024-01-01T00:20:00Z'']))"
  proof (rule frames_of_interval_run)
    show "frame_times_loop [1704067200000000] 1704068700000000 =
        Inr [1704067200000000, 1704067800000000, 1704068400000000]"
      by (rule sample_schedule)
    show "map (get_radar_image sample_env resolved_radar)
        [1704067200000000, 1704067800000000, 1704068400000000] =
      map Inr [''radar 2024-01-01T00:00:00Z'', ''radar 2024-01-01T00:10:00Z'',
         ''radar 2024-01-01T00:20:00Z'']"
      unfolding sample_fetches by simp
    show "combine_loop sample_env resolved_radar
        [1704067200000000, 1704067800000000, 1704068400000000]
        (enumerate 0 [''radar 2024-01-01T00:00:00Z'', ''radar 2024-01-01T00:10:00Z'',
         ''radar 2024-01-01T00:20:00Z'']) [] =
      Inr [''frame of radar 2024-01-01T00:00:00Z'', ''frame of radar 2024-01-01T00:10:00Z'',
         ''frame of radar 2024-01-01T00:20:00Z'']"
      by (simp add: sample_compose)
    show "[''frame of radar 2024-01-01T00:00:00Z'', ''frame of radar 2024-01-01T00:10:00Z'',
         ''frame of radar 2024-01-01T00:20:00Z''] \<noteq> []"
      by simp
  qed
  then have run: "frames_of_interval sample_env resolved_radar 1704067200000000 1704068700000000 =
     Inr ([1704067200000000, 1704067800000000, 1704068400000000],
        [''frame of radar 2024-01-01T00:00:00Z'', ''frame of radar 2024-01-01T00:10:00Z'',
         ''frame of radar 2024-01-01T00:20:00Z'', ''frame of radar 2024-01-01T00:20:00Z'',
         ''frame of radar 2024-01-01T00:20:00Z'', ''frame of radar 2024-01-01T00:20:00Z''])"
    by (simp add: eval_nat_numeral)
  then show ?thesis
    by (simp add: get_loop_frames_def sample_dimensions)
qed


lemma sample_assemble:
  "assemble sample_env frames = Inr (concat frames)"
  "assemble status_env frames = Inr (concat frames)"
proof -
  have "read_frames sample_env fs =
      Inr (map (\<lambda>b. \<lparr>img_width = 800, img_height = 800, img_data = b\<rparr>) fs)" for fs
    by (induction fs) (simp_all add: sample_env_def)
  moreover have "read_frames status_env fs = read_frames sample_env fs" for fs
    by (induction fs) (simp_all add: sample_env_def status_env_def)
  ultimately show "assemble sample_env frames = Inr (concat frames)"
    and "assemble status_env frames = Inr (concat frames)"
    by (simp_all add: assemble_def sample_env_def status_env_def comp_def)
qed

lemma sample_get_loop:
  "get_loop sample_env module_globals sample_radar =
     (Inr (concat [''frame of radar 2024-01-01T00:00:00Z'', ''frame of radar 2024-01-01T00:10:00Z'',
         ''frame of radar 2024-01-01T00:20:00Z'', ''frame of radar 2024-01-01T00:20:00Z'',
         ''frame of radar 2024-01-01T00:20:00Z'', ''frame of radar 2024-01-01T00:20:00Z'']),
      resolved_globals, resolved_radar)"
  by (simp only: get_loop_def sample_frames sample_assemble prod.case sum.case)


subsection \<open>The animation\<close>

text \<open>
  Claim C2. When \<^verbatim>\<open>get_loop\<close> returns an animation, the list of composite frames that
  went to the encoder has three entries more than the list of frame times, and its last
  four entries are equal: each of them is the composite of the last frame time.
\<close>

theorem get_loop_frame_count:
  assumes "get_loop E G self = (Inr gif_bytes, G', self')"
  shows "\<exists>start end_time frame_times frames.
     get_dimensions E G self = (Inr (start, end_time), G', self') \<and>
     frame_times_loop [start] end_time = Inr frame_times \<and>
     get_loop_frames E G self = (Inr (frame_times, frames), G', self') \<and>
     assemble E frames = Inr gif_bytes \<and>
     length frames = length frame_times + 3 \<and>
     drop (length frames - 4) frames = replicate 4 (frames ! (length frame_times - 1))"
proof -
  from assms obtain frame_times frames where
    run: "get_loop_frames E G self = (Inr (frame_times, frames), G', self')"
    and gif: "assemble E frames = Inr gif_bytes"
    by (auto simp: get_loop_def split: prod.splits sum.splits)
  from get_loop_frames_Inr [OF run] obtain start end_time where
    dims: "get_dimensions E G self = (Inr (start, end_time), G', self')"
    and interval: "frames_of_interval E self' start end_time = Inr (frame_times, frames)"
    by blast
  from frames_of_interval_Inr [OF interval] obtain composites where
    times: "frame_times_loop [start] end_time = Inr frame_times"
    and nonempty: "frame_times \<noteq> []"
    and len: "length composites = length frame_times"
    and frames: "frames = composites @ replicate 3 (last composites)"
    by blast
  from nonempty len have c: "composites \<noteq> []" by auto
  then have split: "butlast composites @ [last composites] = composites" by simp
  from frames len have count: "length frames = length frame_times + 3" by simp
  from c len frames have real: "frames ! (length frame_times - 1) = last composites"
    by (simp add: nth_append last_conv_nth)
  have "butlast composites @ replicate 4 (last composites) =
      (butlast composites @ [last composites]) @ replicate 3 (last composites)"
    by (simp add: eval_nat_numeral)
  with split frames have "frames = butlast composites @ replicate 4 (last composites)"
    by simp
  moreover from c len have "length frames - 4 = length (butlast composites)"
    using count by simp
  ultimately have "drop (length frames - 4) frames = replicate 4 (last composites)"
    by (metis append_eq_conv_conj)
  with real dims times run gif count show ?thesis by auto
qed

text \<open>The run in \<open>sample_env\<close>: three frame times, six frames.\<close>

theorem get_loop_frame_count_witness:
  "\<exists>frame_times frames.
     get_loop_frames sample_env module_globals sample_radar =
       (Inr (frame_times, frames), resolved_globals, resolved_radar) \<and>
     length frames = length frame_times + 3 \<and>
     drop (length frames - 4) frames = replicate 4 (frames ! (length frame_times - 1))"
  using get_loop_frame_count [OF sample_get_loop] by blast

text \<open>
  Claim C3. When \<^verbatim>\<open>get_loop\<close> has built its frames, the frame times are in strictly
  ascending order and the frame at position \<open>i\<close> is the composite of the raster fetched for
  the frame time at position \<open>i\<close>, with that frame time as its label. The order in which the
  fetches complete does not matter: the run gives the same frames with every other event
  loop \<open>sched\<close>.
\<close>

theorem get_loop_frame_order:
  assumes "get_loop_frames E G self = (Inr (frame_times, frames), G', self')"
  shows "sorted_wrt (<) frame_times \<and>
    (\<forall>i<length frame_times. \<exists>radar.
       get_radar_image E self' (frame_times ! i) = Inr radar \<and>
       combine_layers E self' radar (frame_times ! i) = Inr (frames ! i)) \<and>
    (\<forall>sched. get_loop_frames (E\<lparr>pick := sched\<rparr>) G self = (Inr (frame_times, frames), G', self'))"
proof -
  from get_loop_frames_Inr [OF assms] obtain start end_time where
    dims: "get_dimensions E G self = (Inr (start, end_time), G', self')"
    and interval: "frames_of_interval E self' start end_time = Inr (frame_times, frames)"
    by blast
  from frames_of_interval_Inr [OF interval] obtain composites where
    times: "frame_times_loop [start] end_time = Inr frame_times"
    and len: "length composites = length frame_times"
    and frames: "frames = composites @ replicate 3 (last composites)"
    and each: "\<forall>i<length frame_times. \<exists>radar.
          get_radar_image E self' (frame_times ! i) = Inr radar \<and>
          combine_layers E self' radar (frame_times ! i) = Inr (composites ! i)"
    by blast
  from frame_times_loop_Inr [OF times]
  have nth: "\<forall>i<length frame_times. frame_times ! i = start + int i * timedelta_minutes 10"
    by simp
  have "sorted_wrt (<) frame_times"
    unfolding sorted_wrt_iff_nth_less
  proof (intro allI impI)
    fix i j
    assume "i < j" "j < length frame_times"
    with nth show "frame_times ! i < frame_times ! j"
      by (simp add: timedelta_minutes_def)
  qed
  moreover have "\<forall>i<length frame_times. \<exists>radar.
       get_radar_image E self' (frame_times ! i) = Inr radar \<and>
       combine_layers E self' radar (frame_times ! i) = Inr (frames ! i)"
    using each len frames by (simp add: nth_append)
  moreover have "get_loop_frames (E\<lparr>pick := sched\<rparr>) G self = (Inr (frame_times, frames), G', self')"
    for sched
    using dims frames_of_interval_pick [OF interval, of sched]
    by (simp add: get_loop_frames_def get_dimensions_pick)
  ultimately show ?thesis by blast
qed

text \<open>The same frames when the fetches complete first to last instead of last to first.\<close>

theorem get_loop_frame_order_witness:
  "get_loop_frames (sample_env\<lparr>pick := (\<lambda>pending. 0)\<rparr>) module_globals sample_radar =
     (Inr ([1704067200000000, 1704067800000000, 1704068400000000],
        [''frame of radar 2024-01-01T00:00:00Z'', ''frame of radar 2024-01-01T00:10:00Z'',
         ''frame of radar 2024-01-01T00:20:00Z'', ''frame of radar 2024-01-01T00:20:00Z'',
         ''frame of radar 2024-01-01T00:20:00Z'', ''frame of radar 2024-01-01T00:20:00Z'']),
      resolved_globals, resolved_radar)"
  using get_loop_frame_order [OF sample_frames] by blast




subsection \<open>The capability document\<close>





text \<open>Every other document that arrives and parses gives an interval.\<close>

lemma get_dimensions_well_formed:
  assumes "requests_get E geomet_url
      ((capabilities_params G)(''layer'' \<mapsto> PyStr (self_layer self))) = Inr response"
    and "et_fromstring E (content response) = Inr tree"
    and "\<not> malformed_document E tree (self_layer self)"
  shows "\<exists>start end_time. fst (get_dimensions E G self) = Inr (start, end_time)"
proof -
  from assms(3) obtain d ds dimension_string where
    found: "dimension_elements tree (self_layer self) = d # ds"
    and has_text: "elem_text d = Some dimension_string"
    and good: "\<not> malformed_dimension_text E dimension_string"
    by (auto simp: malformed_document_def dimension_text_def split: list.splits option.splits)
  from good obtain a b rest where
    fields: "str_split CHR ''/'' dimension_string = a # b # rest"
    and "\<not> isl (isoparse E a)" and "\<not> isl (isoparse E b)"
    by (auto simp: malformed_dimension_text_def split: list.splits)
  then obtain start end_time where
    "isoparse E a = Inr start" and "isoparse E b = Inr end_time"
    by (cases "isoparse E a"; cases "isoparse E b") auto
  with fields have "parse_fields E (take 2 (str_split CHR ''/'' dimension_string)) =
      Inr [start, end_time]"
    by simp
  with found has_text assms(1,2) show ?thesis
    by (simp add: get_dimensions_def find_dimension_def)
qed



subsection \<open>The bounding box\<close>

lemma math_asin_outside: "outside_asin_domain q \<Longrightarrow> math_asin F q = Inl math_domain_error"
  by (cases q) (auto simp: outside_asin_domain_def math_asin_def)

text \<open>
  Claim C7. When the quotient that \<^verbatim>\<open>get_bounding_box\<close> hands to \<^verbatim>\<open>math.asin\<close> is a
  number outside the interval from -1 to 1, the function ends with the
  \<^verbatim>\<open>ValueError\<close> ``math domain error'' of \<^verbatim>\<open>math.asin\<close>: it returns no bounds.
\<close>

theorem get_bounding_box_domain_error:
  assumes "asin_argument F (fp_div F distance (Finite 6371.01)) (fp_radians F latittude) = Inr q"
    and "outside_asin_domain q"
  shows "get_bounding_box F distance latittude longitude = Inl math_domain_error"
  using assms
  by (simp add: get_bounding_box_def py_truediv_def math_asin_outside Let_def)

lemma exact_asin_argument:
  "asin_argument exact_fpu (fp_div exact_fpu (Finite (6371.01 * pi / 2)) (Finite 6371.01))
     (fp_radians exact_fpu (Finite 60)) = Inr (Finite 2)"
  by (simp add: asin_argument_def exact_fpu_def math_sin_def math_cos_def py_truediv_def cos_60)

text \<open>
  In exact arithmetic, a radius of a quarter of the meridian at latitude 60: the quotient
  is 2.
\<close>

theorem get_bounding_box_domain_error_witness:
  "get_bounding_box exact_fpu (Finite (6371.01 * pi / 2)) (Finite 60) (Finite 0) =
     Inl math_domain_error"
proof -
  have "outside_asin_domain (Finite 2)"
    by (simp add: outside_asin_domain_def)
  with exact_asin_argument show ?thesis
    by (rule get_bounding_box_domain_error)
qed

text \<open>A quotient that is NaN passes \<^verbatim>\<open>math.asin\<close> without an exception.\<close>

lemma get_bounding_box_nan:
  "asin_argument F (fp_div F distance (Finite 6371.01)) (fp_radians F latittude) = Inr NaN \<Longrightarrow>
   \<exists>box. get_bounding_box F distance latittude longitude = Inr box"
  by (simp add: get_bounding_box_def py_truediv_def math_asin_def Let_def)

subsection \<open>The effects of \<^verbatim>\<open>get_dimensions\<close>\<close>

lemma get_dimensions_writes:
  "fst (snd (get_dimensions E G self)) =
     G\<lparr>capabilities_params :=
        (capabilities_params G)(''layer'' \<mapsto> PyStr (self_layer self))\<rparr>"
  by (auto simp: get_dimensions_def Let_def split: sum.splits option.splits list.splits)

text \<open>
  Claim C8, amended. \<^verbatim>\<open>get_dimensions\<close> writes in two places. It stores the session's
  layer under \<^verbatim>\<open>layer\<close> in the module's \<^verbatim>\<open>capabilities_params\<close>, on every call; and when it
  returns an interval it sets the session's \<^verbatim>\<open>timestamp\<close> to the ISO format of the
  interval's end. Everything else (the other two dictionaries, the other attributes of the
  session, and the whole session when the call fails) is as it was.
\<close>

theorem get_dimensions_effects:
  assumes "get_dimensions E G self = (result, G', self')"
  shows "G' = G\<lparr>capabilities_params :=
        (capabilities_params G)(''layer'' \<mapsto> PyStr (self_layer self))\<rparr> \<and>
    self' = (case result of
        Inl e \<Rightarrow> self
      | Inr (start, end_time) \<Rightarrow> self\<lparr>timestamp := StampIso (isoformat E end_time)\<rparr>)"
  using assms
  by (auto simp: get_dimensions_def Let_def split: sum.splits option.splits list.splits)

text \<open>The call in \<open>sample_env\<close>.\<close>

theorem get_dimensions_effects_witness:
  "snd (get_dimensions sample_env module_globals sample_radar) =
     (module_globals\<lparr>capabilities_params :=
        (capabilities_params module_globals)(''layer'' \<mapsto> PyStr ''RADAR_1KM_RRAI'')\<rparr>,
      sample_radar\<lparr>timestamp := StampIso ''2024-01-01T00:25:00+00:00''\<rparr>)"
  using get_dimensions_effects [OF sample_dimensions]
  unfolding sample_dimensions
  by (simp add: resolved_globals_def resolved_radar_def)

text \<open>
  The same call changes the session's \<^verbatim>\<open>timestamp\<close> and adds a key to
  \<^verbatim>\<open>capabilities_params\<close>: it is not free of side effects.
\<close>

theorem get_dimensions_effects_counterexample:
  "timestamp sample_radar = StampDatetime 1704068760000000 \<and>
   timestamp (snd (snd (get_dimensions sample_env module_globals sample_radar))) =
     StampIso ''2024-01-01T00:25:00+00:00'' \<and>
   capabilities_params module_globals ''layer'' = None \<and>
   capabilities_params (fst (snd (get_dimensions sample_env module_globals sample_radar)))
     ''layer'' = Some (PyStr ''RADAR_1KM_RRAI'')"
  unfolding sample_dimensions
  by (simp add: resolved_globals_def resolved_radar_def sample_radar_def module_globals_def)

subsection \<open>The constructor\<close>

lemma get_bounding_box_error:
  "get_bounding_box F distance latittude longitude = Inl e \<Longrightarrow>
   e = math_domain_error \<or> e = ZeroDivisionError ''float division by zero''"
  by (auto simp: get_bounding_box_def asin_argument_def py_truediv_def math_sin_def
      math_cos_def math_asin_def Let_def split: if_splits sum.splits pyfloat.splits)

lemma init_legend_error:
  "init_legend E G precip_type0 = (Inl e, G1) \<Longrightarrow>
   (\<exists>m. e = KeyError m) \<or> (\<exists>m. e = RequestException m) \<or> (\<exists>m. e = ImageError m)"
  by (auto simp: init_legend_def Let_def split: option.splits sum.splits)

lemma get_station_coords_error:
  "get_station_coords E station = Inl e \<Longrightarrow> (\<exists>m. e = OSError m) \<or> (\<exists>m. e = KeyError m)"
  by (auto simp: get_station_coords_def split: sum.splits option.splits)

lemma str_upper_xyz: "str_upper ''xyz'' = ''XYZ''"
  by code_simp

lemma str_lower_Snow: "str_lower ''Snow'' = ''snow''"
  by code_simp

lemma exact_box_at_origin:
  "get_bounding_box exact_fpu (Finite 0) (Finite 0) (Finite 0) =
     Inr (Finite 0, Finite 0, Finite 0, Finite 0)"
  by (simp add: get_bounding_box_def exact_fpu_def py_truediv_def asin_argument_def
      math_sin_def math_cos_def math_asin_def Let_def)

lemma sample_init_legend:
  assumes "legend_params G ''request'' = Some (PyStr ''GetLegendGraphic'')"
  shows "init_legend sample_env G None =
      (Inr (''rain'', ''RADAR_1KM_RRAI'', \<lparr>img_width = 100, img_height = 40, img_data = ''legend''\<rparr>),
       G\<lparr>legend_params := (legend_params G)
         (''layer'' \<mapsto> PyStr ''RADAR_1KM_RRAI'', ''style'' \<mapsto> PyStr ''RADARURPPRECIPR'')\<rparr>)"
    and "init_legend sample_env G (Some ''Snow'') =
      (Inr (''snow'', ''RADAR_1KM_RSNO'', \<lparr>img_width = 100, img_height = 40, img_data = ''legend''\<rparr>),
       G\<lparr>legend_params := (legend_params G)
         (''layer'' \<mapsto> PyStr ''RADAR_1KM_RSNO'', ''style'' \<mapsto> PyStr ''RADARURPPRECIPS14'')\<rparr>)"
  using assms
  by (simp_all add: init_legend_def chosen_precip_type_def truthy_def opt_str_def str_lower_Snow
      layer_def legend_style_def sample_env_def geomet_url_def basemap_url_def Let_def)

lemma module_legend_request:
  "legend_params module_globals ''request'' = Some (PyStr ''GetLegendGraphic'')"
  by (simp add: module_globals_def)

lemma sample_rest:
  "get_station_coords sample_env ''XYZ'' = Inr (Finite 0, Finite 0)"
  "fp sample_env = exact_fpu"
  "bbox_string sample_env (Finite 0, Finite 0, Finite 0, Finite 0) = ''0.0,0.0,0.0,0.0''"
  "requests_get sample_env basemap_url query = Inr \<lparr>status_code = 200, content = ''basemap''\<rparr>"
  "datetime_now sample_env = 1704068760000000"
  by (simp_all add: get_station_coords_def sample_env_def bbox_string_def)

lemma first_construction:
  "ECRadar_init sample_env module_globals (Some ''xyz'') None (Finite 0) None 800 800 =
     (Inr sample_radar, first_globals)"
  by (simp add: ECRadar_init_def sample_init_legend(1) [OF module_legend_request] truthy_def
      opt_str_def str_upper_xyz sample_rest exact_box_at_origin Let_def sample_radar_def
      first_globals_def)

lemma first_legend_request:
  "legend_params first_globals ''request'' = Some (PyStr ''GetLegendGraphic'')"
  by (simp add: first_globals_def module_globals_def)

lemma second_construction:
  "ECRadar_init sample_env first_globals (Some ''xyz'') None (Finite 0) (Some ''Snow'') 400 300 =
     (Inr snow_radar, second_globals)"
  by (simp add: ECRadar_init_def sample_init_legend(2) [OF first_legend_request] truthy_def
      opt_str_def str_upper_xyz sample_rest exact_box_at_origin Let_def snow_radar_def
      second_globals_def)

lemma init_legend_Inr:
  assumes "init_legend E G precip_type0 = (Inr (ptype, lyr, legend), G1)"
  shows "\<exists>sty. layer ptype = Some lyr \<and> legend_style ptype = Some sty \<and>
    G1 = G\<lparr>legend_params :=
      (legend_params G)(''layer'' \<mapsto> PyStr lyr, ''style'' \<mapsto> PyStr sty)\<rparr>"
  using assms
  by (auto simp: init_legend_def Let_def split: option.splits sum.splits)

lemma ECRadar_init_Inr:
  assumes "ECRadar_init E G station_id coordinates radius precip_type0 width0 height0 =
      (Inr self, G')"
  shows "\<exists>sty. legend_style (precip_type self) = Some sty \<and>
    G' = G\<lparr>legend_params :=
        (legend_params G)(''layer'' \<mapsto> PyStr (self_layer self), ''style'' \<mapsto> PyStr sty),
      basemap_params := basemap_params G ++ map_params self\<rparr> \<and>
    map_params self =
      [''bbox'' \<mapsto> PyStr (bbox_string E (bbox self)), ''width'' \<mapsto> PyInt (width self),
       ''height'' \<mapsto> PyInt (height self)]"
proof -
  from assms obtain ptype lyr legend G1 where
    legend: "init_legend E G precip_type0 = (Inr (ptype, lyr, legend), G1)"
    by (auto simp: ECRadar_init_def split: prod.splits sum.splits)
  from init_legend_Inr [OF legend] obtain sty where
    sty: "legend_style ptype = Some sty"
    and G1: "G1 = G\<lparr>legend_params :=
      (legend_params G)(''layer'' \<mapsto> PyStr lyr, ''style'' \<mapsto> PyStr sty)\<rparr>"
    by blast
  from assms legend have "precip_type self = ptype \<and> self_layer self = lyr \<and>
    G' = G1\<lparr>basemap_params := basemap_params G1 ++ map_params self\<rparr> \<and>
    map_params self =
      [''bbox'' \<mapsto> PyStr (bbox_string E (bbox self)), ''width'' \<mapsto> PyInt (width self),
       ''height'' \<mapsto> PyInt (height self)]"
    by (auto simp: ECRadar_init_def Let_def split: sum.splits option.splits if_splits)
  with sty G1 show ?thesis by auto
qed

text \<open>
  Claim C9, amended. Without a location (\<^verbatim>\<open>station_id\<close> is \<^verbatim>\<open>None\<close> or the empty string,
  and \<^verbatim>\<open>coordinates\<close> is \<^verbatim>\<open>None\<close>) the constructor fails: with the exception of the
  legend's part if that part fails, and otherwise with the \<^verbatim>\<open>TypeError\<close> of subscripting
  \<^verbatim>\<open>None\<close>. With a non-empty \<^verbatim>\<open>station_id\<close> or with \<^verbatim>\<open>coordinates\<close> that exception is
  never raised.
\<close>

theorem ECRadar_init_location:
  "(\<not> truthy station_id \<and> coordinates = None \<longrightarrow>
      fst (ECRadar_init E G station_id coordinates radius precip_type0 width0 height0) =
        (case fst (init_legend E G precip_type0) of
           Inl e \<Rightarrow> Inl e
         | Inr legend \<Rightarrow> Inl not_subscriptable)) \<and>
   (truthy station_id \<or> coordinates \<noteq> None \<longrightarrow>
      fst (ECRadar_init E G station_id coordinates radius precip_type0 width0 height0) \<noteq>
        Inl not_subscriptable)"
proof (intro conjI impI)
  assume "\<not> truthy station_id \<and> coordinates = None"
  then show "fst (ECRadar_init E G station_id coordinates radius precip_type0 width0 height0) =
        (case fst (init_legend E G precip_type0) of
           Inl e \<Rightarrow> Inl e
         | Inr legend \<Rightarrow> Inl not_subscriptable)"
    by (auto simp: ECRadar_init_def Let_def split: prod.splits sum.splits)
next
  assume located: "truthy station_id \<or> coordinates \<noteq> None"
  show "fst (ECRadar_init E G station_id coordinates radius precip_type0 width0 height0) \<noteq>
        Inl not_subscriptable"
  proof (cases "init_legend E G precip_type0")
    case (Pair legend_result G1)
    show ?thesis
    proof (cases legend_result)
      case (Inl e)
      with Pair init_legend_error [of E G precip_type0 e G1] show ?thesis
        by (auto simp: ECRadar_init_def not_subscriptable_def)
    next
      case (Inr legend)
      obtain ptype lyr img where legend: "legend = (ptype, lyr, img)"
        by (cases legend) auto
      show ?thesis
      proof (cases "truthy station_id")
        case True
        show ?thesis
        proof (cases "get_station_coords E (str_upper (opt_str station_id))")
          case (Inl e)
          with Pair Inr legend True get_station_coords_error [OF Inl] show ?thesis
            by (auto simp: ECRadar_init_def not_subscriptable_def)
        next
          case coords: (Inr c)
          obtain lat lon where c: "c = (lat, lon)" by (cases c) auto
          show ?thesis
          proof (cases "get_bounding_box (fp E) radius lat lon")
            case (Inl e)
            with Pair Inr legend True coords c get_bounding_box_error [OF Inl] show ?thesis
              by (auto simp: ECRadar_init_def not_subscriptable_def math_domain_error_def)
          next
            case box: (Inr b)
            with Pair Inr legend True coords c show ?thesis
              by (auto simp: ECRadar_init_def Let_def not_subscriptable_def split: sum.splits)
          qed
        qed
      next
        case False
        with located obtain lat lon where co: "coordinates = Some (lat, lon)"
          by (cases coordinates) auto
        show ?thesis
        proof (cases "get_bounding_box (fp E) radius lat lon")
          case (Inl e)
          with Pair Inr legend False co get_bounding_box_error [OF Inl] show ?thesis
            by (auto simp: ECRadar_init_def not_subscriptable_def math_domain_error_def)
        next
          case box: (Inr b)
          with Pair Inr legend False co show ?thesis
            by (auto simp: ECRadar_init_def Let_def not_subscriptable_def split: sum.splits)
        qed
      qed
    qed
  qed
qed

text \<open>No location at all, and the station XYZ.\<close>

theorem ECRadar_init_location_witness:
  "fst (ECRadar_init sample_env module_globals None None (Finite 200) None 800 800) =
     Inl not_subscriptable \<and>
   fst (ECRadar_init sample_env module_globals (Some ''xyz'') None (Finite 0) None 800 800) \<noteq>
     Inl not_subscriptable"
  using ECRadar_init_location [of None None sample_env module_globals "Finite 200" None 800 800]
    ECRadar_init_location [of "Some ''xyz''" None sample_env module_globals "Finite 0" None 800 800]
  by (simp add: truthy_def sample_init_legend(1) [OF module_legend_request])

text \<open>
  A \<^verbatim>\<open>station_id\<close> is given, the empty string, and the constructor still subscripts
  \<^verbatim>\<open>None\<close>.
\<close>

theorem ECRadar_init_location_counterexample:
  "fst (ECRadar_init sample_env module_globals (Some []) None (Finite 200) None 800 800) =
     Inl not_subscriptable"
  by (simp add: ECRadar_init_def truthy_def sample_init_legend(1) [OF module_legend_request])

text \<open>
  Claim C10. A construction that succeeds has written the session's layer and legend style
  into the module's \<^verbatim>\<open>legend_params\<close> and the session's \<^verbatim>\<open>bbox\<close>, \<^verbatim>\<open>width\<close> and
  \<^verbatim>\<open>height\<close> into the module's \<^verbatim>\<open>basemap_params\<close>; \<^verbatim>\<open>get_dimensions\<close> writes the layer
  into \<^verbatim>\<open>capabilities_params\<close>. The dictionaries are the module's, so the next
  construction starts from them, and after it these entries are the ones of the later
  session: those of the earlier one are overwritten.
\<close>

theorem module_dictionaries_written:
  assumes "ECRadar_init E G station_id coordinates radius precip_type0 width0 height0 =
      (Inr self, G')"
  shows "(\<exists>sty. legend_style (precip_type self) = Some sty \<and>
       legend_params G' =
         (legend_params G)(''layer'' \<mapsto> PyStr (self_layer self), ''style'' \<mapsto> PyStr sty)) \<and>
    basemap_params G' = basemap_params G ++ map_params self \<and>
    dom (map_params self) = {''bbox'', ''width'', ''height''} \<and>
    capabilities_params
      (fst (snd (get_dimensions E' G' self))) =
      (capabilities_params G')(''layer'' \<mapsto> PyStr (self_layer self)) \<and>
    (\<forall>E2 station_id2 coordinates2 radius2 precip_type2 width2 height2 self2 G2.
       ECRadar_init E2 G' station_id2 coordinates2 radius2 precip_type2 width2 height2 =
         (Inr self2, G2) \<longrightarrow>
       legend_params G2 ''layer'' = Some (PyStr (self_layer self2)) \<and>
       legend_params G2 ''style'' = map_option PyStr (legend_style (precip_type self2)) \<and>
       basemap_params G2 ''bbox'' = map_params self2 ''bbox'' \<and>
       basemap_params G2 ''width'' = map_params self2 ''width'' \<and>
       basemap_params G2 ''height'' = map_params self2 ''height'')"
proof -
  from ECRadar_init_Inr [OF assms] obtain sty where
    sty: "legend_style (precip_type self) = Some sty"
    and G': "G' = G\<lparr>legend_params :=
        (legend_params G)(''layer'' \<mapsto> PyStr (self_layer self), ''style'' \<mapsto> PyStr sty),
      basemap_params := basemap_params G ++ map_params self\<rparr>"
    and mp: "map_params self =
      [''bbox'' \<mapsto> PyStr (bbox_string E (bbox self)), ''width'' \<mapsto> PyInt (width self),
       ''height'' \<mapsto> PyInt (height self)]"
    by blast
  from mp have "dom (map_params self) = {''bbox'', ''width'', ''height''}"
    by auto
  moreover have "capabilities_params (fst (snd (get_dimensions E' G' self))) =
      (capabilities_params G')(''layer'' \<mapsto> PyStr (self_layer self))"
    using get_dimensions_writes [of E' G' self] by simp
  moreover have "legend_params G2 ''layer'' = Some (PyStr (self_layer self2)) \<and>
       legend_params G2 ''style'' = map_option PyStr (legend_style (precip_type self2)) \<and>
       basemap_params G2 ''bbox'' = map_params self2 ''bbox'' \<and>
       basemap_params G2 ''width'' = map_params self2 ''width'' \<and>
       basemap_params G2 ''height'' = map_params self2 ''height''"
    if "ECRadar_init E2 G' station_id2 coordinates2 radius2 precip_type2 width2 height2 =
         (Inr self2, G2)"
    for E2 station_id2 coordinates2 radius2 precip_type2 width2 height2 self2 G2
    using ECRadar_init_Inr [OF that] by (auto simp: map_add_def)
  ultimately show ?thesis using sty G' by auto
qed

text \<open>A rain session of 800 by 800, then a snow session of 400 by 300.\<close>

theorem module_dictionaries_written_witness:
  "snd (ECRadar_init sample_env module_globals (Some ''xyz'') None (Finite 0) None 800 800) =
     first_globals \<and>
   snd (ECRadar_init sample_env first_globals (Some ''xyz'') None (Finite 0) (Some ''Snow'')
     400 300) = second_globals \<and>
   legend_params first_globals ''layer'' = Some (PyStr ''RADAR_1KM_RRAI'') \<and>
   legend_params second_globals ''layer'' = Some (PyStr ''RADAR_1KM_RSNO'') \<and>
   basemap_params first_globals ''width'' = Some (PyInt 800) \<and>
   basemap_params second_globals ''width'' = Some (PyInt 400)"
proof -
  from module_dictionaries_written [OF first_construction, of sample_env]
  have "legend_params second_globals ''layer'' = Some (PyStr (self_layer snow_radar)) \<and>
      basemap_params second_globals ''width'' = map_params snow_radar ''width''"
    using second_construction by blast
  moreover have "legend_params first_globals ''layer'' = Some (PyStr ''RADAR_1KM_RRAI'')"
    and "basemap_params first_globals ''width'' = Some (PyInt 800)"
    by (simp_all add: first_globals_def)
  ultimately show ?thesis
    by (simp add: first_construction second_construction snow_radar_def)
qed

end
